theory Spec2Isabelle
  imports Main "HOL-Library.Char_ord" "HOL-Library.List_Lexorder"
begin

section \<open>Data model\<close>

text \<open>
  The persisted schema of \<^verbatim>\<open>supabase/migrations/20250805103937_little_queen.sql\<close>.
  A column declared without \<^verbatim>\<open>NOT NULL\<close> is an \<open>option\<close>; identifiers are the
  textual form of a UUID; timestamps are ISO strings, as the client sends them.
  Column names that several tables share, or that Isabelle reserves, carry the table's
  initial as a suffix.
\<close>

type_synonym uuid = string
type_synonym timestamptz = string

datatype project_status = Not_started | In_progress | Blocked | Done

datatype review_status = Pending | Approved | Rejected

record users_row =
  id_u :: uuid
  auth_id :: "uuid option"
  name :: string
  email :: string
  role :: string
  avatar_url :: "string option"
  created_at_u :: timestamptz
  updated_at_u :: timestamptz

record projects_row =
  id_p :: uuid
  title :: string
  stack :: string
  sprint_p :: string
  notes_p :: "string option"
  status_p :: "project_status option"
  created_by :: "uuid option"
  created_at_p :: timestamptz
  updated_at_p :: timestamptz

text \<open>
  \<^verbatim>\<open>interface Module\<close> of \<^verbatim>\<open>ModuleTable.tsx\<close> mirrors the table
  \<^verbatim>\<open>project_modules\<close>; one record serves both.
\<close>

record Module =
  id_m :: uuid
  project_id_m :: "uuid option"
  module_name_m :: string
  platform_stack :: string
  assigned_dev_id :: "uuid option"
  design_locked_date :: "timestamptz option"
  dev_start_date :: "timestamptz option"
  self_qa_date :: "timestamptz option"
  lead_signoff_date :: "timestamptz option"
  pm_review_date :: "timestamptz option"
  cto_review_status :: "review_status option"
  client_ready_status :: "review_status option"
  status_m :: "project_status option"
  eta :: "timestamptz option"
  sprint_m :: string
  notes_m :: "string option"
  created_at_m :: timestamptz
  updated_at_m :: timestamptz

record project_members_row =
  id_pm :: uuid
  project_id_pm :: "uuid option"
  user_id_pm :: "uuid option"
  role_in_project :: string
  created_at_pm :: timestamptz

text \<open>
  The six role names inserted into \<^verbatim>\<open>roles\<close> by every migration. The column
  \<^verbatim>\<open>users.role\<close> itself is free text.
\<close>

definition default_roles :: "string list" where
  "default_roles = [''admin'', ''dev'', ''pm'', ''cto'', ''lead'', ''designer'']"

section \<open>Field-level edit check (\<^verbatim>\<open>ModuleTable.tsx\<close>, \<^verbatim>\<open>canEditField\<close>)\<close>

datatype js_error = TypeError

text \<open>The object literal \<^verbatim>\<open>fieldPermissions\<close>, key by key.\<close>

definition fieldPermissions :: "(string \<times> string list) list" where
  "fieldPermissions =
    [(''module_name'', [''admin'']),
     (''platform_stack'', [''admin'']),
     (''assigned_dev_id'', [''admin'']),
     (''design_locked_date'', [''designer'', ''admin'']),
     (''dev_start_date'', [''dev'', ''admin'']),
     (''self_qa_date'', [''dev'', ''admin'']),
     (''lead_signoff_date'', [''lead'', ''admin'']),
     (''pm_review_date'', [''pm'', ''admin'']),
     (''cto_review_status'', [''cto'', ''admin'']),
     (''client_ready_status'', [''pm'', ''admin'']),
     (''status'', [''dev'', ''pm'', ''admin'']),
     (''eta'', [''pm'', ''admin'']),
     (''sprint'', [''pm'', ''admin'']),
     (''notes'', [''admin'', ''pm'', ''dev'', ''cto'', ''lead'', ''designer''])]"

text \<open>
  \<^verbatim>\<open>fieldPermissions[field]\<close> is a property read on an object literal: a key the
  literal does not define is looked up on \<^verbatim>\<open>Object.prototype\<close>, whose properties
  (ECMAScript, with Annex B) are listed here. Such a read yields a function or an object,
  not an array and not \<^verbatim>\<open>undefined\<close>.
\<close>

definition Object_prototype :: "string list" where
  "Object_prototype =
    [''constructor'', ''__defineGetter__'', ''__defineSetter__'', ''hasOwnProperty'',
     ''__lookupGetter__'', ''__lookupSetter__'', ''isPrototypeOf'', ''propertyIsEnumerable'',
     ''toString'', ''valueOf'', ''__proto__'', ''toLocaleString'']"

datatype property = Array "string list" | Inherited | Undefined

definition get_property :: "(string \<times> string list) list \<Rightarrow> string \<Rightarrow> property" where
  "get_property obj key =
     (case map_of obj key of
        Some rs \<Rightarrow> Array rs
      | None \<Rightarrow> if key \<in> set Object_prototype then Inherited else Undefined)"

text \<open>
  \<^verbatim>\<open>v || []\<close>: only \<^verbatim>\<open>undefined\<close> is falsy here (an array, even an empty one,
  a function and an object are truthy).
\<close>

definition or_empty :: "property \<Rightarrow> property" where
  "or_empty v = (case v of Undefined \<Rightarrow> Array [] | Array rs \<Rightarrow> Array rs | Inherited \<Rightarrow> Inherited)"

text \<open>
  \<^verbatim>\<open>allowedRoles.includes(r)\<close>: membership on an array; on an inherited value the
  property \<^verbatim>\<open>includes\<close> is \<^verbatim>\<open>undefined\<close> and the call throws a TypeError.
\<close>

definition includes_js :: "property \<Rightarrow> string \<Rightarrow> js_error + bool" where
  "includes_js v r =
     (case v of
        Array rs \<Rightarrow> Inr (r \<in> set rs)
      | Inherited \<Rightarrow> Inl TypeError
      | Undefined \<Rightarrow> Inl TypeError)"

text \<open>
  The signed-in user's \<^verbatim>\<open>profile\<close> comes from the auth context and may be null;
  it is a row of \<^verbatim>\<open>users\<close>. \<^verbatim>\<open>profile.id === module.assigned_dev_id\<close> compares a
  string with a value that may be null.
\<close>

definition canEditField :: "users_row option \<Rightarrow> string \<Rightarrow> Module \<Rightarrow> js_error + bool" where
  "canEditField profile field mdl =
     (case profile of
        None \<Rightarrow> Inr False
      | Some p \<Rightarrow>
          (let allowedRoles = or_empty (get_property fieldPermissions field) in
           if field = ''dev_start_date'' \<or> field = ''self_qa_date''
           then (case includes_js allowedRoles (role p) of
                   Inl e \<Rightarrow> Inl e
                 | Inr b \<Rightarrow> Inr (b \<or> Some (id_u p) = assigned_dev_id mdl))
           else includes_js allowedRoles (role p)))"

section \<open>The store: tables, row-level policies, statements\<close>

record db =
  users :: "users_row list"
  projects :: "projects_row list"
  project_modules :: "Module list"
  project_members :: "project_members_row list"

text \<open>
  A comparison in which either side is \<^verbatim>\<open>NULL\<close> is not true. The policies below use
  only \<^verbatim>\<open>AND\<close>, \<^verbatim>\<open>OR\<close>, \<^verbatim>\<open>IN\<close> and \<^verbatim>\<open>EXISTS\<close>, so an unknown truth value
  and \<^verbatim>\<open>false\<close> have the same effect and one \<open>bool\<close> serves for both.
\<close>

definition sql_eq :: "'a option \<Rightarrow> 'a option \<Rightarrow> bool" where
  "sql_eq a b = (case a of None \<Rightarrow> False | Some x \<Rightarrow> b = Some x)"



definition Users_can_read_projects :: "db \<Rightarrow> uuid \<Rightarrow> projects_row \<Rightarrow> bool" where
  "Users_can_read_projects d uid prj =
     (\<exists>u \<in> set (users d). auth_id u = Some uid \<and>
        (role u \<in> set [''admin'', ''pm'', ''cto''] \<or>
         (\<exists>pm \<in> set (project_members d).
            project_id_pm pm = Some (id_p prj) \<and> user_id_pm pm = Some (id_u u))))"

definition Only_admins_can_create_projects :: "db \<Rightarrow> uuid \<Rightarrow> bool" where
  "Only_admins_can_create_projects d uid =
     (\<exists>u \<in> set (users d). auth_id u = Some uid \<and> role u = ''admin'')"

text \<open>
  The two policies of \<^verbatim>\<open>project_modules\<close> that decide an update read two columns of
  the row, \<^verbatim>\<open>project_id\<close> and \<^verbatim>\<open>assigned_dev_id\<close>; they take them as arguments.
\<close>

definition Users_can_read_modules_from_their_projects ::
  "db \<Rightarrow> uuid \<Rightarrow> uuid option \<Rightarrow> uuid option \<Rightarrow> bool" where
  "Users_can_read_modules_from_their_projects d uid project_id assigned_dev =
     (\<exists>u \<in> set (users d). auth_id u = Some uid \<and>
        (role u \<in> set [''admin'', ''pm'', ''cto''] \<or>
         (\<exists>pm \<in> set (project_members d).
            sql_eq (project_id_pm pm) project_id \<and> user_id_pm pm = Some (id_u u)) \<or>
         assigned_dev = Some (id_u u)))"

definition Role_based_module_updates ::
  "db \<Rightarrow> uuid \<Rightarrow> uuid option \<Rightarrow> uuid option \<Rightarrow> bool" where
  "Role_based_module_updates d uid project_id assigned_dev =
     (\<exists>u \<in> set (users d). auth_id u = Some uid \<and>
        (role u = ''admin'' \<or>
         (role u = ''pm'' \<and>
          Some (id_u u) \<in> set (map user_id_pm
             (filter (\<lambda>pm. sql_eq (project_id_pm pm) project_id) (project_members d)))) \<or>
         (role u = ''dev'' \<and> Some (id_u u) = assigned_dev) \<or>
         role u \<in> set [''lead'', ''cto'', ''designer'']))"

text \<open>
  An \<^verbatim>\<open>UPDATE ... WHERE id = x\<close> reads the row it filters, so the engine applies the
  select policy beside the \<^verbatim>\<open>USING\<close> expression of the update policy: a row is
  touched when both admit the session, and skipped without an error otherwise.
\<close>

definition module_update_admitted :: "db \<Rightarrow> uuid \<Rightarrow> uuid option \<Rightarrow> uuid option \<Rightarrow> bool" where
  "module_update_admitted d uid project_id assigned_dev =
     (Users_can_read_modules_from_their_projects d uid project_id assigned_dev \<and>
      Role_based_module_updates d uid project_id assigned_dev)"

text \<open>
  The signed-in user's profile is the row of \<^verbatim>\<open>users\<close> whose \<^verbatim>\<open>auth_id\<close> is the
  identity of the session; an actor has exactly one.
\<close>

definition is_profile :: "db \<Rightarrow> uuid \<Rightarrow> users_row \<Rightarrow> bool" where
  "is_profile d uid p = (filter (\<lambda>u. auth_id u = Some uid) (users d) = [p])"

text \<open>A row of \<^verbatim>\<open>project_members\<close> links the user to the project of the module.\<close>

definition is_member :: "db \<Rightarrow> users_row \<Rightarrow> uuid option \<Rightarrow> bool" where
  "is_member d u project_id =
     (\<exists>pm \<in> set (project_members d).
        sql_eq (project_id_pm pm) project_id \<and> user_id_pm pm = Some (id_u u))"

subsection \<open>Statements on \<^verbatim>\<open>users\<close>\<close>






subsection \<open>Constraints and the deletion of a project\<close>

datatype sql_error =
  unique_violation | foreign_key_violation | undefined_column | insufficient_privilege
  | data_exception

text \<open>
  The constraints of \<^verbatim>\<open>project_modules\<close> as the engine checks them on an insert: the
  primary key, and the two \<^verbatim>\<open>REFERENCES\<close> columns, each of which must be null or name
  an existing row. No \<^verbatim>\<open>REFERENCES\<close> column of the schema is declared
  \<^verbatim>\<open>NOT NULL\<close>. The check is the engine's; the row-level policies come on top for a
  client.
\<close>

definition fk :: "uuid option \<Rightarrow> uuid list \<Rightarrow> bool" where
  "fk ref ids = (case ref of None \<Rightarrow> True | Some i \<Rightarrow> i \<in> set ids)"

definition insert_module :: "db \<Rightarrow> Module \<Rightarrow> sql_error + db" where
  "insert_module d row =
     (if id_m row \<in> set (map id_m (project_modules d)) then Inl unique_violation
      else if fk (project_id_m row) (map id_p (projects d)) \<and>
              fk (assigned_dev_id row) (map id_u (users d))
      then Inr (d\<lparr>project_modules := project_modules d @ [row]\<rparr>)
      else Inl foreign_key_violation)"

text \<open>
  \<^verbatim>\<open>DELETE FROM projects WHERE id = pid\<close>, with \<^verbatim>\<open>ON DELETE CASCADE\<close> of
  \<^verbatim>\<open>project_modules.project_id\<close> and \<^verbatim>\<open>project_members.project_id\<close>. The
  migrations define no delete policy on \<^verbatim>\<open>projects\<close>, so the statement is one of a
  role that bypasses row-level security.
\<close>

definition delete_project :: "db \<Rightarrow> uuid \<Rightarrow> db" where
  "delete_project d pid =
     (if pid \<in> set (map id_p (projects d))
      then d\<lparr>projects := filter (\<lambda>p. id_p p \<noteq> pid) (projects d),
             project_modules := filter (\<lambda>m. project_id_m m \<noteq> Some pid) (project_modules d),
             project_members := filter (\<lambda>pm. project_id_pm pm \<noteq> Some pid) (project_members d)\<rparr>
      else d)"

text \<open>What the foreign keys on \<^verbatim>\<open>projects(id)\<close> maintain.\<close>

definition project_references_live :: "db \<Rightarrow> bool" where
  "project_references_live d =
     (list_all (\<lambda>m. fk (project_id_m m) (map id_p (projects d))) (project_modules d) \<and>
      list_all (\<lambda>pm. fk (project_id_pm pm) (map id_p (projects d))) (project_members d))"

definition references_live_project :: "db \<Rightarrow> Module \<Rightarrow> bool" where
  "references_live_project d m = (\<exists>p \<in> set (projects d). project_id_m m = Some (id_p p))"

section \<open>The client\<close>

text \<open>
  \<^verbatim>\<open>!x\<close> on a value typed \<^verbatim>\<open>string | null\<close>: null and the empty string are falsy.
\<close>

definition falsy :: "string option \<Rightarrow> bool" where
  "falsy x = (x = None \<or> x = Some [])"

subsection \<open>\<^verbatim>\<open>Members\<close>: editing a user\<close>

text \<open>
  The component's \<^verbatim>\<open>editingId\<close> and, of \<^verbatim>\<open>editData\<close> (a partial user profile), the
  two keys \<^verbatim>\<open>handleSaveUser\<close> reads; \<open>None\<close> is a key that is not set.
\<close>

record members_state =
  editingId_u :: "uuid option"
  editData_name :: "string option"
  editData_role :: "string option"


definition onChange_name :: "string \<Rightarrow> members_state \<Rightarrow> members_state" where
  "onChange_name v st = st\<lparr>editData_name := Some v\<rparr>"



subsection \<open>Navigation and page gates (\<^verbatim>\<open>Sidebar\<close>, \<^verbatim>\<open>RoleProtected\<close>, \<^verbatim>\<open>App.tsx\<close>, \<^verbatim>\<open>Projects\<close>)\<close>

record menu_item =
  item_id :: string
  item_label :: string
  item_roles :: "string list"

definition menuItems :: "menu_item list" where
  "menuItems =
    [\<lparr>item_id = ''dashboard'', item_label = ''Dashboard'',
      item_roles = [''admin'', ''dev'', ''pm'', ''cto'', ''lead'', ''designer'']\<rparr>,
     \<lparr>item_id = ''projects'', item_label = ''Projects'',
      item_roles = [''admin'', ''dev'', ''pm'', ''cto'', ''lead'', ''designer'']\<rparr>,
     \<lparr>item_id = ''add-project'', item_label = ''Add Project'', item_roles = [''admin'', ''pm'']\<rparr>,
     \<lparr>item_id = ''members'', item_label = ''Members'', item_roles = [''admin'']\<rparr>,
     \<lparr>item_id = ''analytics'', item_label = ''Analytics'',
      item_roles = [''admin'', ''pm'', ''cto'']\<rparr>]"

definition filteredItems :: "users_row option \<Rightarrow> menu_item list" where
  "filteredItems profile =
     filter (\<lambda>item. case profile of None \<Rightarrow> False | Some p \<Rightarrow> role p \<in> set (item_roles item))
       menuItems"

datatype rendered = Spinner | Fallback | Children

definition RoleProtected :: "string list \<Rightarrow> users_row option \<Rightarrow> bool \<Rightarrow> rendered" where
  "RoleProtected allowedRoles profile loading =
     (if loading then Spinner
      else case profile of
             None \<Rightarrow> Fallback
           | Some p \<Rightarrow> if role p \<in> set allowedRoles then Children else Fallback)"

text \<open>
  What \<^verbatim>\<open>renderPage\<close> puts on the screen for \<^verbatim>\<open>currentPage\<close>: a page, or what the
  gate around it shows instead.
\<close>

datatype page =
  Dashboard | Projects | AddProject | Members | Analytics | ProjectDetail uuid
  | NoProjectSelected | AccessDenied | Loading

definition gated :: "string list \<Rightarrow> users_row option \<Rightarrow> bool \<Rightarrow> page \<Rightarrow> page" where
  "gated allowedRoles profile loading children =
     (case RoleProtected allowedRoles profile loading of
        Spinner \<Rightarrow> Loading | Fallback \<Rightarrow> AccessDenied | Children \<Rightarrow> children)"

definition renderPage :: "string \<Rightarrow> uuid option \<Rightarrow> users_row option \<Rightarrow> bool \<Rightarrow> page" where
  "renderPage currentPage selectedProjectId profile loading =
     (if currentPage = ''dashboard'' then Dashboard
      else if currentPage = ''projects'' then Projects
      else if currentPage = ''add-project'' then gated [''admin''] profile loading AddProject
      else if currentPage = ''members'' then gated [''admin''] profile loading Members
      else if currentPage = ''analytics''
        then gated [''admin'', ''pm'', ''cto''] profile loading Analytics
      else if currentPage = ''project-detail''
        then (if falsy selectedProjectId then NoProjectSelected
              else ProjectDetail (the selectedProjectId))
      else Dashboard)"

text \<open>The "Add Project" button of the \<^verbatim>\<open>Projects\<close> page: \<^verbatim>\<open>profile?.role === 'admin'\<close>.\<close>

definition add_project_button :: "users_row option \<Rightarrow> bool" where
  "add_project_button profile = (case profile of None \<Rightarrow> False | Some p \<Rightarrow> role p = ''admin'')"

subsection \<open>\<^verbatim>\<open>ModuleTable\<close>: the users offered as assignee\<close>

text \<open>The three columns \<^verbatim>\<open>fetchUsers\<close> selects.\<close>

record assignee =
  id_a :: uuid
  name_a :: string
  role_a :: string

text \<open>
  \<^verbatim>\<open>select id, name, role from users where role in (...) order by name\<close>; the select
  policy of \<^verbatim>\<open>users\<close> admits every row. The order of strings is taken to be the
  lexicographic one.
\<close>

definition select_users_in :: "db \<Rightarrow> string list \<Rightarrow> assignee list" where
  "select_users_in d rs =
     map (\<lambda>u. \<lparr>id_a = id_u u, name_a = name u, role_a = role u\<rparr>)
       (sort_key name (filter (\<lambda>u. role u \<in> set rs) (users d)))"

text \<open>
  One run of \<^verbatim>\<open>fetchUsers\<close> on the component's \<^verbatim>\<open>users\<close> state. The argument is the
  store as it is when the request is answered, or \<open>None\<close> when the request fails: the
  error is thrown, caught and logged, and the state is left as it was.
\<close>

definition fetchUsers :: "db option \<Rightarrow> assignee list \<Rightarrow> assignee list" where
  "fetchUsers store users_state =
     (case store of None \<Rightarrow> users_state | Some d \<Rightarrow> select_users_in d [''dev'', ''lead''])"

text \<open>The state starts empty; the effect runs \<^verbatim>\<open>fetchUsers\<close> whenever \<^verbatim>\<open>projectId\<close> changes.\<close>

fun fetches :: "db option list \<Rightarrow> assignee list \<Rightarrow> assignee list" where
  "fetches [] users_state = users_state"
| "fetches (store # rest) users_state = fetches rest (fetchUsers store users_state)"

text \<open>
  The \<^verbatim>\<open>option\<close> elements of the assignee select of \<^verbatim>\<open>renderEditableCell\<close>, as
  (value, label): "Unassigned" with the empty value, then one per user of the state.
\<close>

definition assignee_options :: "assignee list \<Rightarrow> (string \<times> string) list" where
  "assignee_options users_state = ([], ''Unassigned'') # map (\<lambda>u. (id_a u, name_a u)) users_state"

subsection \<open>\<^verbatim>\<open>ModuleTable\<close>: editing and saving a module\<close>

text \<open>
  What the client receives and sends are JSON objects: finite maps from keys to values.
  \<^verbatim>\<open>Partial<Module>\<close> is such a map with any subset of the keys of a module. A fetched
  module carries the columns of its row and the joined key \<^verbatim>\<open>users\<close>.
\<close>

datatype json = JString string | JNull | JObject "(string \<times> json) list"

type_synonym jsobject = "string \<rightharpoonup> json"

record module_table_state =
  editingId :: "string option"
  editData :: jsobject

definition string_of :: "json option \<Rightarrow> string option" where
  "string_of v = (case v of Some (JString x) \<Rightarrow> Some x | _ \<Rightarrow> None)"

definition handleEditModule :: "jsobject \<Rightarrow> module_table_state \<Rightarrow> module_table_state" where
  "handleEditModule mdl st = \<lparr>editingId = string_of (mdl ''id''), editData = mdl\<rparr>"

text \<open>
  The \<^verbatim>\<open>onChange\<close> handler of every editable cell:
  \<^verbatim>\<open>setEditData({ ...editData, [field]: e.target.value })\<close>.
\<close>

definition onChange :: "string \<Rightarrow> string \<Rightarrow> module_table_state \<Rightarrow> module_table_state" where
  "onChange field v st = st\<lparr>editData := (editData st)(field \<mapsto> JString v)\<rparr>"

fun onChanges :: "(string \<times> string) list \<Rightarrow> module_table_state \<Rightarrow> module_table_state" where
  "onChanges [] st = st"
| "onChanges ((field, v) # rest) st = onChanges rest (onChange field v st)"

text \<open>A request \<^verbatim>\<open>from(table).update(payload).eq('id', x)\<close>.\<close>

datatype request = Update string jsobject string

definition handleSaveModule :: "timestamptz \<Rightarrow> module_table_state \<Rightarrow> request option" where
  "handleSaveModule now st =
     (if falsy (editingId st) then None
      else Some (Update ''project_modules''
                   ((editData st)(''updated_at'' \<mapsto> JString now)) (the (editingId st))))"

text \<open>
  The store's side of such a request on \<^verbatim>\<open>project_modules\<close>. The columns are those
  of the table's definition; the joined key \<^verbatim>\<open>users\<close> of a fetched module is not one
  of them.
\<close>

definition project_modules_columns :: "string list" where
  "project_modules_columns =
    [''id'', ''project_id'', ''module_name'', ''platform_stack'', ''assigned_dev_id'',
     ''design_locked_date'', ''dev_start_date'', ''self_qa_date'', ''lead_signoff_date'',
     ''pm_review_date'', ''cto_review_status'', ''client_ready_status'', ''status'', ''eta'',
     ''sprint'', ''notes'', ''created_at'', ''updated_at'']"

definition row_admitted :: "db \<Rightarrow> uuid \<Rightarrow> jsobject \<Rightarrow> bool" where
  "row_admitted d uid row =
     module_update_admitted d uid (string_of (row ''project_id'')) (string_of (row ''assigned_dev_id''))"

text \<open>
  A payload with a key that is no column of the table is refused as a whole, before any
  row is touched. Otherwise the statement touches the rows that its filter selects and the
  policies admit: each takes the values of the payload, key by key, and the trigger sets
  \<^verbatim>\<open>updated_at\<close> to the store's clock. The update policy has no \<^verbatim>\<open>WITH CHECK\<close>, so
  the new rows must be admitted again, and one that is not aborts the statement. The
  engine's check of a new row against the column types and constraints is the parameter
  \<open>valid\<close>. The arguments \<open>d\<close> and \<open>uid\<close> give the policies the tables they read and
  the session; \<open>rows\<close> are the rows of \<^verbatim>\<open>project_modules\<close> as the API exchanges them.
\<close>

definition store_update ::
  "(jsobject \<Rightarrow> bool) \<Rightarrow> db \<Rightarrow> uuid \<Rightarrow> request \<Rightarrow> timestamptz \<Rightarrow> jsobject list
     \<Rightarrow> sql_error + jsobject list" where
  "store_update valid d uid q clock rows =
     (case q of Update table payload x \<Rightarrow>
        if dom payload \<subseteq> set project_modules_columns
        then (let touched = (\<lambda>row. row ''id'' = Some (JString x) \<and> row_admitted d uid row);
                  new = (\<lambda>row. (row ++ payload)(''updated_at'' \<mapsto> JString clock))
              in if list_all (\<lambda>row. valid (new row)) (filter touched rows)
                 then if list_all (\<lambda>row. row_admitted d uid (new row)) (filter touched rows)
                      then Inr (map (\<lambda>row. if touched row then new row else row) rows)
                      else Inl insufficient_privilege
                 else Inl data_exception)
        else Inl undefined_column)"

section \<open>Sample rows\<close>

text \<open>Concrete rows on which the properties below are evaluated.\<close>

definition sample_user :: "uuid \<Rightarrow> string \<Rightarrow> string \<Rightarrow> users_row" where
  "sample_user i n r =
     \<lparr>id_u = i, auth_id = Some (''auth-'' @ i), name = n, email = n @ ''@jeux.com'', role = r,
      avatar_url = None, created_at_u = ''2025-08-05T10:00:00Z'',
      updated_at_u = ''2025-08-05T10:00:00Z''\<rparr>"

definition admin_ada :: users_row where
  "admin_ada = sample_user ''u-ada'' ''ada'' ''admin''"

definition dev_dan :: users_row where
  "dev_dan = sample_user ''u-dan'' ''dan'' ''dev''"

definition dev_eve :: users_row where
  "dev_eve = sample_user ''u-eve'' ''eve'' ''dev''"

definition pm_pat :: users_row where
  "pm_pat = sample_user ''u-pat'' ''pat'' ''pm''"

definition lead_lee :: users_row where
  "lead_lee = sample_user ''u-lee'' ''lee'' ''lead''"

definition guest_gus :: users_row where
  "guest_gus = sample_user ''u-gus'' ''gus'' ''guest''"

definition sample_module :: "uuid \<Rightarrow> uuid option \<Rightarrow> uuid option \<Rightarrow> Module" where
  "sample_module i p a =
     \<lparr>id_m = i, project_id_m = p, module_name_m = ''Auth Service'', platform_stack = ''Node.js'',
      assigned_dev_id = a, design_locked_date = None, dev_start_date = None,
      self_qa_date = None, lead_signoff_date = None, pm_review_date = None,
      cto_review_status = Some Pending, client_ready_status = Some Pending,
      status_m = Some Not_started, eta = None, sprint_m = ''Sprint 1'', notes_m = None,
      created_at_m = ''2025-08-05T10:00:00Z'', updated_at_m = ''2025-08-05T10:00:00Z''\<rparr>"

definition sample_project :: "uuid \<Rightarrow> projects_row" where
  "sample_project i =
     \<lparr>id_p = i, title = ''Gateway'', stack = ''React + Supabase'', sprint_p = ''Sprint 1'',
      notes_p = None, status_p = Some Not_started, created_by = Some ''u-ada'',
      created_at_p = ''2025-08-05T10:00:00Z'', updated_at_p = ''2025-08-05T10:00:00Z''\<rparr>"

definition sample_member :: "uuid \<Rightarrow> uuid option \<Rightarrow> uuid option \<Rightarrow> project_members_row" where
  "sample_member i p u =
     \<lparr>id_pm = i, project_id_pm = p, user_id_pm = u, role_in_project = ''member'',
      created_at_pm = ''2025-08-05T10:00:00Z''\<rparr>"

text \<open>
  A store with one project \<open>p1\<close>, one module of it assigned to eve, and dan as the
  project's only member.
\<close>

definition sample_db :: db where
  "sample_db =
     \<lparr>users = [admin_ada, dev_dan, dev_eve, pm_pat, lead_lee, guest_gus],
      projects = [sample_project ''p1''],
      project_modules = [sample_module ''m1'' (Some ''p1'') (Some ''u-eve'')],
      project_members = [sample_member ''l1'' (Some ''p1'') (Some ''u-dan'')]\<rparr>"


definition initial_module_table_state :: module_table_state where
  "initial_module_table_state = \<lparr>editingId = None, editData = Map.empty\<rparr>"

text \<open>The module \<open>m1\<close> of the sample store as the client fetches it.\<close>

definition sample_module_object :: jsobject where
  "sample_module_object = map_of
     [(''id'', JString ''m1''), (''project_id'', JString ''p1''),
      (''module_name'', JString ''Auth Service''), (''platform_stack'', JString ''Node.js''),
      (''assigned_dev_id'', JString ''u-eve''), (''design_locked_date'', JNull),
      (''dev_start_date'', JNull), (''self_qa_date'', JNull), (''lead_signoff_date'', JNull),
      (''pm_review_date'', JNull), (''cto_review_status'', JString ''pending''),
      (''client_ready_status'', JString ''pending''), (''status'', JString ''not_started''),
      (''eta'', JNull), (''sprint'', JString ''Sprint 1''), (''notes'', JNull),
      (''created_at'', JString ''2025-08-05T10:00:00Z''),
      (''updated_at'', JString ''2025-08-05T10:00:00Z''),
      (''users'', JObject [(''name'', JString ''eve'')])]"

section \<open>Properties of the field-level edit check\<close>

lemma includes_js_allowedRoles:
  "field \<notin> set Object_prototype \<Longrightarrow>
   includes_js (or_empty (get_property fieldPermissions field)) r =
     Inr (\<exists>rs. map_of fieldPermissions field = Some rs \<and> r \<in> set rs)"
  by (auto simp: includes_js_def or_empty_def get_property_def split: option.splits)

text \<open>
  On every field name that is not a built-in property of an object, the check returns
  normally, and grants exactly the pairs of the table plus the assignee on the two
  special-cased fields.
\<close>

lemma canEditField_table:
  assumes "field \<notin> set Object_prototype"
  shows "canEditField (Some p) field mdl =
           Inr ((\<exists>rs. map_of fieldPermissions field = Some rs \<and> role p \<in> set rs) \<or>
                (field = ''dev_start_date'' \<or> field = ''self_qa_date'') \<and>
                Some (id_u p) = assigned_dev_id mdl)"
  using includes_js_allowedRoles [OF assms, of "role p"]
  by (simp add: canEditField_def Let_def)

lemma canEditField_no_profile: "canEditField None field mdl = Inr False"
  by (simp add: canEditField_def)

lemma fieldPermissions_keys:
  "map fst fieldPermissions =
    [''module_name'', ''platform_stack'', ''assigned_dev_id'', ''design_locked_date'',
     ''dev_start_date'', ''self_qa_date'', ''lead_signoff_date'', ''pm_review_date'',
     ''cto_review_status'', ''client_ready_status'', ''status'', ''eta'', ''sprint'', ''notes'']"
  by (simp add: fieldPermissions_def)

lemma inherited_key_not_own:
  assumes "field \<in> set Object_prototype"
  shows "map_of fieldPermissions field = None"
proof -
  have "field \<notin> set (map fst fieldPermissions)"
    using assms unfolding fieldPermissions_keys Object_prototype_def by auto
  then show ?thesis
    by (simp add: map_of_eq_None_iff)
qed

text \<open>On a built-in property name the check does not return: it throws.\<close>

lemma canEditField_inherited_key:
  assumes "field \<in> set Object_prototype"
  shows "canEditField (Some p) field mdl = Inl TypeError"
proof -
  have "get_property fieldPermissions field = Inherited"
    using assms inherited_key_not_own [OF assms] by (simp add: get_property_def)
  moreover have "field \<noteq> ''dev_start_date''" and "field \<noteq> ''self_qa_date''"
    using assms unfolding Object_prototype_def by auto
  ultimately show ?thesis
    by (simp add: canEditField_def Let_def or_empty_def includes_js_def)
qed

lemma allow_lists_within_default_roles:
  "map_of fieldPermissions field = Some rs \<Longrightarrow> set rs \<subseteq> set default_roles"
  by (auto simp: fieldPermissions_def default_roles_def split: if_splits)

lemma notes_editable:
  assumes "role p \<in> set default_roles"
  shows "canEditField (Some p) ''notes'' mdl = Inr True"
  using assms
  by (auto simp: canEditField_def Let_def get_property_def or_empty_def includes_js_def
      fieldPermissions_def default_roles_def)

lemma assignee_editable:
  assumes "Some (id_u p) = assigned_dev_id mdl"
  shows "canEditField (Some p) ''dev_start_date'' mdl = Inr True"
  using assms
  by (simp add: canEditField_def Let_def get_property_def or_empty_def includes_js_def
      fieldPermissions_def)

text \<open>Whether the check grants the actor any field at all.\<close>

lemma some_field_editable:
  "(\<exists>field. canEditField (Some p) field mdl = Inr True) \<longleftrightarrow>
     role p \<in> set default_roles \<or> Some (id_u p) = assigned_dev_id mdl"
proof
  assume "\<exists>field. canEditField (Some p) field mdl = Inr True"
  then obtain field where f: "canEditField (Some p) field mdl = Inr True" ..
  have own: "field \<notin> set Object_prototype"
    using f canEditField_inherited_key [of field p mdl] by auto
  have "(\<exists>rs. map_of fieldPermissions field = Some rs \<and> role p \<in> set rs) \<or>
        Some (id_u p) = assigned_dev_id mdl"
    using f unfolding canEditField_table [OF own] by blast
  then show "role p \<in> set default_roles \<or> Some (id_u p) = assigned_dev_id mdl"
    using allow_lists_within_default_roles [of field] by blast
next
  assume a: "role p \<in> set default_roles \<or> Some (id_u p) = assigned_dev_id mdl"
  show "\<exists>field. canEditField (Some p) field mdl = Inr True"
  proof (cases "role p \<in> set default_roles")
    case True
    show ?thesis
      by (rule exI [where x = "''notes''"]) (rule notes_editable [OF True])
  next
    case False
    then have "Some (id_u p) = assigned_dev_id mdl"
      using a by blast
    then show ?thesis
      by (intro exI [where x = "''dev_start_date''"] assignee_editable)
  qed
qed

text \<open>
  C1. The table grants \<^verbatim>\<open>dev_start_date\<close> and \<^verbatim>\<open>self_qa_date\<close> to the role
  \<^verbatim>\<open>dev\<close> as such: a developer who is not the module's assigned developer (here dan,
  on a module assigned to eve) is allowed to edit both fields, where the claim says the
  check returns false.
\<close>

theorem canEditField_dev_not_assigned:
  "role dev_dan = ''dev'' \<and>
   assigned_dev_id (sample_module ''m1'' (Some ''p1'') (Some (id_u dev_eve))) = Some ''u-eve'' \<and>
   id_u dev_dan = ''u-dan'' \<and>
   canEditField (Some dev_dan) ''dev_start_date''
     (sample_module ''m1'' (Some ''p1'') (Some (id_u dev_eve))) = Inr True \<and>
   canEditField (Some dev_dan) ''self_qa_date''
     (sample_module ''m1'' (Some ''p1'') (Some (id_u dev_eve))) = Inr True"
  by (simp add: canEditField_def Let_def get_property_def or_empty_def includes_js_def
      fieldPermissions_def dev_dan_def dev_eve_def sample_user_def sample_module_def)

text \<open>
  C4, as stated, fails: an actor whose role is outside the six roles, when the module is
  assigned to them, may edit \<^verbatim>\<open>dev_start_date\<close>.
\<close>

theorem canEditField_unknown_role_assignee:
  "role guest_gus \<notin> set default_roles \<and>
   canEditField (Some guest_gus) ''dev_start_date''
     (sample_module ''m1'' (Some ''p1'') (Some (id_u guest_gus))) = Inr True"
  by (simp add: canEditField_def Let_def get_property_def or_empty_def includes_js_def
      fieldPermissions_def guest_gus_def sample_user_def sample_module_def default_roles_def)

text \<open>
  C4, amended. For an actor whose role is none of admin, dev, pm, cto, lead, designer, the
  check returns normally on every field name that is not a built-in property of an object
  (so on every column of a module), and it denies, except on \<^verbatim>\<open>dev_start_date\<close> and
  \<^verbatim>\<open>self_qa_date\<close> of a module assigned to the actor, which it allows.
\<close>

theorem canEditField_unknown_role:
  assumes "role p \<notin> set default_roles" and "field \<notin> set Object_prototype"
  shows "canEditField (Some p) field mdl =
           Inr ((field = ''dev_start_date'' \<or> field = ''self_qa_date'') \<and>
                Some (id_u p) = assigned_dev_id mdl)"
proof -
  have "role p \<notin> set rs" if "map_of fieldPermissions field = Some rs" for rs
    using assms(1) allow_lists_within_default_roles [OF that] by blast
  then show ?thesis
    unfolding canEditField_table [OF assms(2)] by auto
qed

theorem canEditField_unknown_role_witness:
  "role guest_gus \<notin> set default_roles \<and> ''status'' \<notin> set Object_prototype \<and>
   canEditField (Some guest_gus) ''status'' (sample_module ''m1'' (Some ''p1'') None) = Inr False"
  using canEditField_unknown_role [of guest_gus "''status''" "sample_module ''m1'' (Some ''p1'') None"]
  by (simp add: guest_gus_def sample_user_def default_roles_def Object_prototype_def)

text \<open>
  C8. For an actor with one of the six roles, the check on \<^verbatim>\<open>notes\<close> returns true,
  whatever the module.
\<close>

theorem canEditField_notes:
  assumes "role p \<in> set default_roles"
  shows "canEditField (Some p) ''notes'' mdl = Inr True"
  using assms by (rule notes_editable)

theorem canEditField_notes_witness:
  "role lead_lee \<in> set default_roles \<and>
   canEditField (Some lead_lee) ''notes'' (sample_module ''m1'' (Some ''p1'') None) = Inr True"
  using canEditField_notes [of lead_lee "sample_module ''m1'' (Some ''p1'') None"]
  by (simp add: lead_lee_def sample_user_def default_roles_def)

section \<open>Properties of the store's policies\<close>

text \<open>With a single profile for the session, a policy's \<^verbatim>\<open>EXISTS\<close> is a test on it.\<close>

lemma sole_row:
  assumes "filter P xs = [a]"
  shows "(\<exists>u \<in> set xs. P u \<and> Q u) \<longleftrightarrow> Q a"
proof -
  have "set (filter P xs) = {a}" using assms by simp
  then have eq: "{u \<in> set xs. P u} = {a}" by simp
  then have in_xs: "a \<in> set xs" and holds: "P a"
    by auto
  have only: "u = a" if "u \<in> set xs" and "P u" for u
    using that eq by auto
  show ?thesis
    using in_xs holds only by blast
qed

lemma is_profile_dan: "is_profile sample_db ''auth-u-dan'' dev_dan"
  by (simp add: is_profile_def sample_db_def sample_user_def admin_ada_def dev_dan_def dev_eve_def pm_pat_def lead_lee_def guest_gus_def)

lemma Users_can_read_projects_no_profile:
  assumes "filter (\<lambda>u. auth_id u = Some uid) (users d) = []"
  shows "\<not> Users_can_read_projects d uid prj"
proof -
  have "auth_id u \<noteq> Some uid" if "u \<in> set (users d)" for u
    using assms that by (auto simp: filter_empty_conv)
  then show ?thesis
    by (auto simp: Users_can_read_projects_def)
qed

text \<open>
  C7. The select policy of \<^verbatim>\<open>projects\<close> admits the actor for a project when the
  actor's role is admin, pm or cto, whatever the memberships; for any other role, exactly
  when a row of \<^verbatim>\<open>project_members\<close> links the actor to the project; otherwise not.
\<close>

theorem Users_can_read_projects_iff:
  assumes "is_profile d uid actor"
  shows "Users_can_read_projects d uid prj \<longleftrightarrow>
           role actor \<in> {''admin'', ''pm'', ''cto''} \<or>
           (\<exists>pm \<in> set (project_members d).
              project_id_pm pm = Some (id_p prj) \<and> user_id_pm pm = Some (id_u actor))"
proof -
  have "filter (\<lambda>u. auth_id u = Some uid) (users d) = [actor]"
    using assms by (simp add: is_profile_def)
  then have "Users_can_read_projects d uid prj \<longleftrightarrow>
      (role actor \<in> set [''admin'', ''pm'', ''cto''] \<or>
       (\<exists>pm \<in> set (project_members d).
          project_id_pm pm = Some (id_p prj) \<and> user_id_pm pm = Some (id_u actor)))"
    unfolding Users_can_read_projects_def by (rule sole_row)
  then show ?thesis by simp
qed

theorem Users_can_read_projects_iff_witness:
  "is_profile sample_db ''auth-u-dan'' dev_dan \<and>
   role dev_dan = ''dev'' \<and>
   Users_can_read_projects sample_db ''auth-u-dan'' (sample_project ''p1'') \<and>
   \<not> Users_can_read_projects sample_db ''auth-u-dan'' (sample_project ''p2'')"
proof -
  have r: "role dev_dan = ''dev''"
    by (simp add: dev_dan_def sample_user_def)
  have m1: "\<exists>pm \<in> set (project_members sample_db).
      project_id_pm pm = Some (id_p (sample_project ''p1'')) \<and> user_id_pm pm = Some (id_u dev_dan)"
    by (simp add: sample_db_def sample_member_def sample_project_def dev_dan_def sample_user_def)
  have m2: "\<not> (\<exists>pm \<in> set (project_members sample_db).
      project_id_pm pm = Some (id_p (sample_project ''p2'')) \<and> user_id_pm pm = Some (id_u dev_dan))"
    by (simp add: sample_db_def sample_member_def sample_project_def)
  have "Users_can_read_projects sample_db ''auth-u-dan'' (sample_project ''p1'')"
    using Users_can_read_projects_iff [OF is_profile_dan, of "sample_project ''p1''"] m1 by blast
  moreover have "\<not> Users_can_read_projects sample_db ''auth-u-dan'' (sample_project ''p2'')"
    using Users_can_read_projects_iff [OF is_profile_dan, of "sample_project ''p2''"] m2 r by simp
  ultimately show ?thesis
    using is_profile_dan r by blast
qed

section \<open>Who may create a project\<close>

lemma is_profile_pat: "is_profile sample_db ''auth-u-pat'' pm_pat"
  by (simp add: is_profile_def sample_db_def sample_user_def admin_ada_def dev_dan_def dev_eve_def pm_pat_def lead_lee_def guest_gus_def)

lemma Only_admins_can_create_projects_iff:
  assumes "is_profile d uid actor"
  shows "Only_admins_can_create_projects d uid \<longleftrightarrow> role actor = ''admin''"
proof -
  have "filter (\<lambda>u. auth_id u = Some uid) (users d) = [actor]"
    using assms by (simp add: is_profile_def)
  then show ?thesis
    unfolding Only_admins_can_create_projects_def by (rule sole_row)
qed

lemma renderPage_add_project:
  "renderPage ''add-project'' sel (Some p) False = AddProject \<longleftrightarrow> role p = ''admin''"
  by (simp add: renderPage_def gated_def RoleProtected_def)

lemma add_project_button_iff: "add_project_button (Some p) \<longleftrightarrow> role p = ''admin''"
  by (simp add: add_project_button_def)

text \<open>The sidebar offers "Add Project" to two roles.\<close>

lemma filteredItems_add_project:
  "''add-project'' \<in> set (map item_id (filteredItems (Some p))) \<longleftrightarrow>
     role p = ''admin'' \<or> role p = ''pm''"
  by (auto simp: filteredItems_def menuItems_def)

text \<open>
  C6. The page gate, the button of the projects page and the store's insert policy allow
  the creation of a project to an admin only, but the layers are not identical: to a pm
  the sidebar offers the navigation entry \<^verbatim>\<open>add-project\<close>, which leads to the
  access-denied page.
\<close>

theorem add_project_offered_to_pm:
  "role pm_pat = ''pm'' \<and>
   ''add-project'' \<in> set (map item_id (filteredItems (Some pm_pat))) \<and>
   renderPage ''add-project'' None (Some pm_pat) False = AccessDenied \<and>
   \<not> add_project_button (Some pm_pat) \<and>
   is_profile sample_db ''auth-u-pat'' pm_pat \<and>
   \<not> Only_admins_can_create_projects sample_db ''auth-u-pat''"
proof -
  have r: "role pm_pat = ''pm''"
    by (simp add: pm_pat_def sample_user_def)
  have "''add-project'' \<in> set (map item_id (filteredItems (Some pm_pat)))"
    using r filteredItems_add_project [of pm_pat] by blast
  moreover have "renderPage ''add-project'' None (Some pm_pat) False = AccessDenied"
    using r by (simp add: renderPage_def gated_def RoleProtected_def)
  moreover have "\<not> add_project_button (Some pm_pat)"
    using r by (simp add: add_project_button_def)
  moreover have "\<not> Only_admins_can_create_projects sample_db ''auth-u-pat''"
    using r by (simp add: Only_admins_can_create_projects_iff [OF is_profile_pat])
  ultimately show ?thesis
    using r is_profile_pat by blast
qed

section \<open>The store's admission of a module update and the field-level check\<close>

lemma is_member_in_subquery:
  "Some (id_u u) \<in> set (map user_id_pm
      (filter (\<lambda>pm. sql_eq (project_id_pm pm) project_id) (project_members d)))
   \<longleftrightarrow> is_member d u project_id"
  by (auto simp: is_member_def intro: rev_image_eqI)

lemma Users_can_read_modules_profile:
  assumes "is_profile d uid p"
  shows "Users_can_read_modules_from_their_projects d uid project_id assigned_dev \<longleftrightarrow>
           role p \<in> set [''admin'', ''pm'', ''cto''] \<or> is_member d p project_id \<or>
           assigned_dev = Some (id_u p)"
proof -
  have "filter (\<lambda>u. auth_id u = Some uid) (users d) = [p]"
    using assms by (simp add: is_profile_def)
  then show ?thesis
    unfolding Users_can_read_modules_from_their_projects_def is_member_def by (rule sole_row)
qed

lemma Role_based_module_updates_profile:
  assumes "is_profile d uid p"
  shows "Role_based_module_updates d uid project_id assigned_dev \<longleftrightarrow>
           role p = ''admin'' \<or> role p = ''pm'' \<and> is_member d p project_id \<or>
           role p = ''dev'' \<and> Some (id_u p) = assigned_dev \<or>
           role p \<in> set [''lead'', ''cto'', ''designer'']"
proof -
  have "filter (\<lambda>u. auth_id u = Some uid) (users d) = [p]"
    using assms by (simp add: is_profile_def)
  then have "Role_based_module_updates d uid project_id assigned_dev \<longleftrightarrow>
           role p = ''admin'' \<or>
           role p = ''pm'' \<and> Some (id_u p) \<in> set (map user_id_pm
              (filter (\<lambda>pm. sql_eq (project_id_pm pm) project_id) (project_members d))) \<or>
           role p = ''dev'' \<and> Some (id_u p) = assigned_dev \<or>
           role p \<in> set [''lead'', ''cto'', ''designer'']"
    unfolding Role_based_module_updates_def by (rule sole_row)
  then show ?thesis
    unfolding is_member_in_subquery .
qed

text \<open>What the two policies together ask of the actor's profile.\<close>

lemma module_update_admitted_profile:
  assumes "is_profile d uid p"
  shows "module_update_admitted d uid project_id assigned_dev \<longleftrightarrow>
           role p = ''admin'' \<or> role p = ''cto'' \<or>
           role p = ''pm'' \<and> is_member d p project_id \<or>
           role p = ''dev'' \<and> Some (id_u p) = assigned_dev \<or>
           (role p = ''lead'' \<or> role p = ''designer'') \<and>
             (is_member d p project_id \<or> Some (id_u p) = assigned_dev)"
proof -
  have ne: "''admin'' \<noteq> ''pm''" "''admin'' \<noteq> ''dev''" "''pm'' \<noteq> ''dev''"
    "''lead'' \<noteq> ''pm''" "''lead'' \<noteq> ''dev''" "''cto'' \<noteq> ''pm''" "''cto'' \<noteq> ''dev''"
    "''designer'' \<noteq> ''pm''" "''designer'' \<noteq> ''dev''" "''lead'' \<noteq> ''admin''"
    "''designer'' \<noteq> ''admin''" "''lead'' \<noteq> ''cto''" "''designer'' \<noteq> ''cto''"
    "''dev'' \<noteq> ''cto''" "''admin'' \<noteq> ''cto''"
    by simp_all
  have eq: "(assigned_dev = Some (id_u p)) = (Some (id_u p) = assigned_dev)"
    by auto
  show ?thesis
    unfolding module_update_admitted_def Users_can_read_modules_profile [OF assms]
      Role_based_module_updates_profile [OF assms] eq
    using ne by auto
qed

text \<open>
  C2, as stated, fails: pat, a pm who is not a member of the module's project, is granted
  the field \<^verbatim>\<open>eta\<close> by the client's table, and the store does not admit pat's update
  of the row (the select policy admits a pm, the update policy asks for membership).
\<close>

theorem pm_not_member_editable_not_updatable:
  "is_profile sample_db ''auth-u-pat'' pm_pat \<and> role pm_pat = ''pm'' \<and>
   \<not> is_member sample_db pm_pat (Some ''p1'') \<and>
   canEditField (Some pm_pat) ''eta'' (sample_module ''m1'' (Some ''p1'') (Some ''u-eve'')) = Inr True \<and>
   \<not> module_update_admitted sample_db ''auth-u-pat''
       (project_id_m (sample_module ''m1'' (Some ''p1'') (Some ''u-eve'')))
       (assigned_dev_id (sample_module ''m1'' (Some ''p1'') (Some ''u-eve'')))"
proof -
  have r: "role pm_pat = ''pm''" and i: "id_u pm_pat = ''u-pat''"
    by (simp_all add: pm_pat_def sample_user_def)
  have m: "\<not> is_member sample_db pm_pat (Some ''p1'')"
    by (simp add: is_member_def sample_db_def sample_member_def sql_eq_def i)
  have e: "canEditField (Some pm_pat) ''eta'' (sample_module ''m1'' (Some ''p1'') (Some ''u-eve''))
      = Inr True"
    using r by (simp add: canEditField_def Let_def get_property_def or_empty_def includes_js_def
        fieldPermissions_def)
  have "\<not> module_update_admitted sample_db ''auth-u-pat''
       (project_id_m (sample_module ''m1'' (Some ''p1'') (Some ''u-eve'')))
       (assigned_dev_id (sample_module ''m1'' (Some ''p1'') (Some ''u-eve'')))"
    unfolding module_update_admitted_profile [OF is_profile_pat]
    using r m by (simp add: sample_module_def)
  then show ?thesis
    using is_profile_pat r m e by blast
qed

text \<open>
  C2, amended. For an actor with one profile and a module, the two layers agree one way:
  if the store admits the actor's update of the module's row (its select policy and its
  update policy both hold), then the client's table grants that actor some field of the
  module. The other way, a field that the client grants is matched by the store exactly
  when none of these holds: the actor is a pm and not a member of the module's project; a
  dev and not the module's assigned developer; a lead or designer and neither a member nor
  the assignee; the assignee with a role outside the six roles.
\<close>

theorem module_update_admitted_vs_canEditField:
  assumes "is_profile d uid p"
  shows "(module_update_admitted d uid (project_id_m mdl) (assigned_dev_id mdl) \<longrightarrow>
            (\<exists>field. canEditField (Some p) field mdl = Inr True)) \<and>
         (\<forall>field. canEditField (Some p) field mdl = Inr True \<longrightarrow>
            (module_update_admitted d uid (project_id_m mdl) (assigned_dev_id mdl) \<longleftrightarrow>
               (role p = ''pm'' \<longrightarrow> is_member d p (project_id_m mdl)) \<and>
               (role p = ''dev'' \<longrightarrow> Some (id_u p) = assigned_dev_id mdl) \<and>
               (role p = ''lead'' \<or> role p = ''designer'' \<longrightarrow>
                  is_member d p (project_id_m mdl) \<or> Some (id_u p) = assigned_dev_id mdl) \<and>
               (Some (id_u p) = assigned_dev_id mdl \<longrightarrow> role p \<in> set default_roles)))"
proof -
  have six: "role p \<in> set default_roles \<longleftrightarrow>
      role p = ''admin'' \<or> role p = ''dev'' \<or> role p = ''pm'' \<or> role p = ''cto'' \<or>
      role p = ''lead'' \<or> role p = ''designer''"
    by (simp add: default_roles_def)
  have ne: "''admin'' \<noteq> ''pm''" "''admin'' \<noteq> ''dev''" "''pm'' \<noteq> ''dev''"
    "''lead'' \<noteq> ''pm''" "''lead'' \<noteq> ''dev''" "''cto'' \<noteq> ''pm''" "''cto'' \<noteq> ''dev''"
    "''designer'' \<noteq> ''pm''" "''designer'' \<noteq> ''dev''" "''lead'' \<noteq> ''admin''"
    "''designer'' \<noteq> ''admin''" "''lead'' \<noteq> ''cto''" "''designer'' \<noteq> ''cto''"
    "''dev'' \<noteq> ''cto''" "''admin'' \<noteq> ''cto''" "''designer'' \<noteq> ''lead''"
    by simp_all
  let ?adm = "module_update_admitted d uid (project_id_m mdl) (assigned_dev_id mdl)"
  let ?mem = "is_member d p (project_id_m mdl)"
  let ?asg = "Some (id_u p) = assigned_dev_id mdl"
  have adm: "?adm \<longleftrightarrow> role p = ''admin'' \<or> role p = ''cto'' \<or> role p = ''pm'' \<and> ?mem \<or>
      role p = ''dev'' \<and> ?asg \<or> (role p = ''lead'' \<or> role p = ''designer'') \<and> (?mem \<or> ?asg)"
    by (rule module_update_admitted_profile [OF assms])
  have some: "(\<exists>field. canEditField (Some p) field mdl = Inr True) \<longleftrightarrow>
      role p \<in> set default_roles \<or> ?asg"
    by (rule some_field_editable)
  have one: "?adm \<longrightarrow> (\<exists>field. canEditField (Some p) field mdl = Inr True)"
    unfolding some six adm by blast
  have two: "?adm \<longleftrightarrow>
               (role p = ''pm'' \<longrightarrow> ?mem) \<and> (role p = ''dev'' \<longrightarrow> ?asg) \<and>
               (role p = ''lead'' \<or> role p = ''designer'' \<longrightarrow> ?mem \<or> ?asg) \<and>
               (?asg \<longrightarrow> role p \<in> set default_roles)"
    if "canEditField (Some p) field mdl = Inr True" for field
  proof -
    have "\<exists>field. canEditField (Some p) field mdl = Inr True"
      by (rule exI [where x = field]) (rule that)
    then have "role p \<in> set default_roles \<or> ?asg"
      unfolding some .
    then show ?thesis
      unfolding adm six using ne
      by (cases "role p = ''pm''"; cases "role p = ''dev''"; cases "role p = ''lead''";
          cases "role p = ''designer''"; auto)
  qed
  show ?thesis
    using one two by blast
qed

lemma is_profile_lee: "is_profile sample_db ''auth-u-lee'' lead_lee"
  by (simp add: is_profile_def sample_db_def sample_user_def admin_ada_def dev_dan_def dev_eve_def pm_pat_def lead_lee_def guest_gus_def)

lemma is_profile_eve: "is_profile sample_db ''auth-u-eve'' dev_eve"
  by (simp add: is_profile_def sample_db_def sample_user_def admin_ada_def dev_dan_def dev_eve_def pm_pat_def lead_lee_def guest_gus_def)

theorem module_update_admitted_vs_canEditField_witness:
  "is_profile sample_db ''auth-u-eve'' dev_eve \<and> role dev_eve = ''dev'' \<and>
   canEditField (Some dev_eve) ''status'' (sample_module ''m1'' (Some ''p1'') (Some ''u-eve''))
     = Inr True \<and>
   module_update_admitted sample_db ''auth-u-eve''
     (project_id_m (sample_module ''m1'' (Some ''p1'') (Some ''u-eve'')))
     (assigned_dev_id (sample_module ''m1'' (Some ''p1'') (Some ''u-eve''))) \<and>
   is_profile sample_db ''auth-u-lee'' lead_lee \<and> role lead_lee = ''lead'' \<and>
   canEditField (Some lead_lee) ''lead_signoff_date''
     (sample_module ''m1'' (Some ''p1'') (Some ''u-eve'')) = Inr True \<and>
   \<not> module_update_admitted sample_db ''auth-u-lee''
     (project_id_m (sample_module ''m1'' (Some ''p1'') (Some ''u-eve'')))
     (assigned_dev_id (sample_module ''m1'' (Some ''p1'') (Some ''u-eve'')))"
proof -
  let ?m1 = "sample_module ''m1'' (Some ''p1'') (Some ''u-eve'')"
  have eve: "role dev_eve = ''dev''" "id_u dev_eve = ''u-eve''"
    and lee: "role lead_lee = ''lead''" "id_u lead_lee = ''u-lee''"
    by (simp_all add: dev_eve_def lead_lee_def sample_user_def)
  have m1: "project_id_m ?m1 = Some ''p1''" "assigned_dev_id ?m1 = Some ''u-eve''"
    by (simp_all add: sample_module_def)
  have six: "role dev_eve \<in> set default_roles"
    using eve by (simp add: default_roles_def)
  have ge: "canEditField (Some dev_eve) ''status'' ?m1 = Inr True"
    using eve by (simp add: canEditField_def Let_def get_property_def or_empty_def
        includes_js_def fieldPermissions_def)
  have gl: "canEditField (Some lead_lee) ''lead_signoff_date'' ?m1 = Inr True"
    using lee by (simp add: canEditField_def Let_def get_property_def or_empty_def
        includes_js_def fieldPermissions_def)
  have nm: "\<not> is_member sample_db lead_lee (Some ''p1'')"
    by (simp add: is_member_def sample_db_def sample_member_def sql_eq_def lee)
  have "module_update_admitted sample_db ''auth-u-eve'' (project_id_m ?m1) (assigned_dev_id ?m1)"
    using module_update_admitted_vs_canEditField
        [OF is_profile_eve, of ?m1, THEN conjunct2, rule_format, OF ge] eve m1 six
    by simp
  moreover have "\<not> module_update_admitted sample_db ''auth-u-lee''
      (project_id_m ?m1) (assigned_dev_id ?m1)"
    using module_update_admitted_vs_canEditField
        [OF is_profile_lee, of ?m1, THEN conjunct2, rule_format, OF gl] lee m1 nm
    by simp
  ultimately show ?thesis
    using is_profile_eve is_profile_lee eve lee ge gl by blast
qed


text \<open>
  The remaining case: an actor of unknown role who is not the assignee is granted no field
  by the client and is not admitted by the store.
\<close>

lemma is_profile_gus: "is_profile sample_db ''auth-u-gus'' guest_gus"
  by (simp add: is_profile_def sample_db_def sample_user_def admin_ada_def dev_dan_def dev_eve_def pm_pat_def lead_lee_def guest_gus_def)

lemma unknown_role_denied_by_both:
  "\<not> module_update_admitted sample_db ''auth-u-gus'' (Some ''p1'') (Some ''u-eve'') \<and>
   \<not> (\<exists>field. canEditField (Some guest_gus) field
         (sample_module ''m1'' (Some ''p1'') (Some ''u-eve'')) = Inr True)"
proof -
  have r: "role guest_gus = ''guest''" "id_u guest_gus = ''u-gus''"
    by (simp_all add: guest_gus_def sample_user_def)
  have "\<not> module_update_admitted sample_db ''auth-u-gus'' (Some ''p1'') (Some ''u-eve'')"
    unfolding module_update_admitted_profile [OF is_profile_gus] using r by simp
  moreover have "\<not> (\<exists>field. canEditField (Some guest_gus) field
         (sample_module ''m1'' (Some ''p1'') (Some ''u-eve'')) = Inr True)"
    unfolding some_field_editable using r by (simp add: default_roles_def sample_module_def)
  ultimately show ?thesis
    by blast
qed

section \<open>Changing and deleting users\<close>











section \<open>Deleting a project\<close>

lemma fk_iff: "fk ref ids \<longleftrightarrow> ref = None \<or> (\<exists>i \<in> set ids. ref = Some i)"
  by (cases ref) (auto simp: fk_def)

lemma delete_project_modules:
  assumes "project_references_live d"
  shows "project_modules (delete_project d pid) =
           filter (\<lambda>m. project_id_m m \<noteq> Some pid) (project_modules d)"
proof (cases "pid \<in> set (map id_p (projects d))")
  case True
  then show ?thesis by (simp add: delete_project_def)
next
  case False
  have "project_id_m m \<noteq> Some pid" if "m \<in> set (project_modules d)" for m
    using assms that False
    by (fastforce simp: project_references_live_def list_all_iff fk_iff)
  then have "filter (\<lambda>m. project_id_m m \<noteq> Some pid) (project_modules d) = project_modules d"
    by (simp add: filter_id_conv)
  then show ?thesis using False by (simp add: delete_project_def)
qed

lemma delete_project_members:
  assumes "project_references_live d"
  shows "project_members (delete_project d pid) =
           filter (\<lambda>pm. project_id_pm pm \<noteq> Some pid) (project_members d)"
proof (cases "pid \<in> set (map id_p (projects d))")
  case True
  then show ?thesis by (simp add: delete_project_def)
next
  case False
  have "project_id_pm pm \<noteq> Some pid" if "pm \<in> set (project_members d)" for pm
    using assms that False
    by (fastforce simp: project_references_live_def list_all_iff fk_iff)
  then have "filter (\<lambda>pm. project_id_pm pm \<noteq> Some pid) (project_members d) = project_members d"
    by (simp add: filter_id_conv)
  then show ?thesis using False by (simp add: delete_project_def)
qed

lemma delete_project_projects:
  "projects (delete_project d pid) = filter (\<lambda>p. id_p p \<noteq> pid) (projects d)"
proof (cases "pid \<in> set (map id_p (projects d))")
  case True
  then show ?thesis by (simp add: delete_project_def)
next
  case False
  then have "filter (\<lambda>p. id_p p \<noteq> pid) (projects d) = projects d"
    by (auto simp: filter_id_conv)
  then show ?thesis using False by (simp add: delete_project_def)
qed

lemma delete_project_references_live:
  assumes "project_references_live d"
  shows "project_references_live (delete_project d pid)"
  using assms
  unfolding project_references_live_def delete_project_modules [OF assms]
    delete_project_members [OF assms] delete_project_projects
  by (auto simp: list_all_iff fk_iff)

lemma references_live_project_iff:
  "references_live_project d m \<longleftrightarrow> (\<exists>i \<in> set (map id_p (projects d)). project_id_m m = Some i)"
  by (auto simp: references_live_project_def)

text \<open>
  C9, as stated, fails in its last part. The engine accepts a module whose
  \<^verbatim>\<open>project_id\<close> is null (the column is nullable and a null reference is not
  checked); such a module references no project, before and after a project is deleted.
\<close>

theorem module_without_project_retained:
  "insert_module sample_db (sample_module ''m0'' None None) =
     Inr (sample_db\<lparr>project_modules :=
            project_modules sample_db @ [sample_module ''m0'' None None]\<rparr>) \<and>
   project_references_live
     (sample_db\<lparr>project_modules := project_modules sample_db @ [sample_module ''m0'' None None]\<rparr>) \<and>
   sample_module ''m0'' None None \<in> set (project_modules (delete_project
     (sample_db\<lparr>project_modules := project_modules sample_db @ [sample_module ''m0'' None None]\<rparr>)
     ''p1'')) \<and>
   \<not> references_live_project (delete_project
     (sample_db\<lparr>project_modules := project_modules sample_db @ [sample_module ''m0'' None None]\<rparr>)
     ''p1'') (sample_module ''m0'' None None)"
proof -
  let ?m0 = "sample_module ''m0'' None None"
  let ?d = "sample_db\<lparr>project_modules := project_modules sample_db @ [?m0]\<rparr>"
  have ins: "insert_module sample_db ?m0 = Inr ?d"
    by (simp add: insert_module_def fk_def sample_db_def sample_module_def)
  have live: "project_references_live ?d"
    by (simp add: project_references_live_def fk_def sample_db_def sample_module_def
        sample_member_def sample_project_def)
  have "?m0 \<in> set (project_modules (delete_project ?d ''p1''))"
    unfolding delete_project_modules [OF live]
    by (simp add: sample_module_def)
  moreover have "\<not> references_live_project (delete_project ?d ''p1'') ?m0"
    by (simp add: references_live_project_def sample_module_def)
  ultimately show ?thesis
    using ins live by blast
qed

text \<open>
  C9, amended. Deleting a project removes exactly the modules and the project members that
  reference it, and the project: afterwards no module and no member references the deleted
  project, every reference to a project that a retained module or member holds is to a
  live project, and every retained module whose \<^verbatim>\<open>project_id\<close> is not null
  references a live project.
\<close>

theorem delete_project_cascade:
  assumes "project_references_live d"
  shows "project_modules (delete_project d pid) =
           filter (\<lambda>m. project_id_m m \<noteq> Some pid) (project_modules d) \<and>
         project_members (delete_project d pid) =
           filter (\<lambda>pm. project_id_pm pm \<noteq> Some pid) (project_members d) \<and>
         pid \<notin> set (map id_p (projects (delete_project d pid))) \<and>
         (\<forall>m \<in> set (project_modules (delete_project d pid)). project_id_m m \<noteq> Some pid) \<and>
         (\<forall>pm \<in> set (project_members (delete_project d pid)). project_id_pm pm \<noteq> Some pid) \<and>
         project_references_live (delete_project d pid) \<and>
         (\<forall>m \<in> set (project_modules (delete_project d pid)).
            project_id_m m = None \<or> references_live_project (delete_project d pid) m)"
proof -
  have mods: "project_modules (delete_project d pid) =
           filter (\<lambda>m. project_id_m m \<noteq> Some pid) (project_modules d)"
    by (rule delete_project_modules [OF assms])
  have mems: "project_members (delete_project d pid) =
           filter (\<lambda>pm. project_id_pm pm \<noteq> Some pid) (project_members d)"
    by (rule delete_project_members [OF assms])
  have gone: "pid \<notin> set (map id_p (projects (delete_project d pid)))"
    by (auto simp: delete_project_projects)
  have no_mod: "\<forall>m \<in> set (project_modules (delete_project d pid)). project_id_m m \<noteq> Some pid"
    unfolding mods by simp
  have no_mem: "\<forall>pm \<in> set (project_members (delete_project d pid)). project_id_pm pm \<noteq> Some pid"
    unfolding mems by simp
  have live: "project_references_live (delete_project d pid)"
    by (rule delete_project_references_live [OF assms])
  have "\<forall>m \<in> set (project_modules (delete_project d pid)).
            project_id_m m = None \<or> references_live_project (delete_project d pid) m"
    using live
    unfolding project_references_live_def references_live_project_iff list_all_iff fk_iff
    by blast
  then show ?thesis
    using mods mems gone no_mod no_mem live by blast
qed

lemma sample_db_references_live: "project_references_live sample_db"
  by (simp add: project_references_live_def fk_def sample_db_def sample_module_def
      sample_member_def sample_project_def)

theorem delete_project_cascade_witness:
  "project_references_live sample_db \<and>
   project_modules sample_db = [sample_module ''m1'' (Some ''p1'') (Some ''u-eve'')] \<and>
   project_members sample_db = [sample_member ''l1'' (Some ''p1'') (Some ''u-dan'')] \<and>
   project_modules (delete_project sample_db ''p1'') = [] \<and>
   project_members (delete_project sample_db ''p1'') = [] \<and>
   project_references_live (delete_project sample_db ''p1'')"
  using delete_project_cascade [OF sample_db_references_live, of "''p1''"]
    sample_db_references_live
  by (simp add: sample_db_def sample_module_def sample_member_def)

section \<open>The users offered as assignee\<close>

lemma select_users_in_sound:
  assumes "a \<in> set (select_users_in d rs)"
  shows "\<exists>u \<in> set (users d). role u \<in> set rs \<and>
           a = \<lparr>id_a = id_u u, name_a = name u, role_a = role u\<rparr>"
  using assms by (auto simp: select_users_in_def)

lemma fetchUsers_sound:
  assumes "a \<in> set (fetchUsers store st)"
  shows "a \<in> set st \<or>
         (\<exists>d u. store = Some d \<and> u \<in> set (users d) \<and> (role u = ''dev'' \<or> role u = ''lead'') \<and>
                a = \<lparr>id_a = id_u u, name_a = name u, role_a = role u\<rparr>)"
proof (cases store)
  case None
  then show ?thesis using assms by (simp add: fetchUsers_def)
next
  case (Some d)
  then have "a \<in> set (select_users_in d [''dev'', ''lead''])"
    using assms by (simp add: fetchUsers_def)
  from select_users_in_sound [OF this] Some show ?thesis
    by auto
qed

lemma fetches_sound:
  assumes "a \<in> set (fetches stores st)"
  shows "a \<in> set st \<or>
         (\<exists>d u. Some d \<in> set stores \<and> u \<in> set (users d) \<and>
                (role u = ''dev'' \<or> role u = ''lead'') \<and>
                a = \<lparr>id_a = id_u u, name_a = name u, role_a = role u\<rparr>)"
  using assms
proof (induction stores arbitrary: st)
  case Nil
  then show ?case by simp
next
  case (Cons store rest)
  from Cons.prems have "a \<in> set (fetches rest (fetchUsers store st))"
    by simp
  from Cons.IH [OF this] show ?case
  proof
    assume "a \<in> set (fetchUsers store st)"
    from fetchUsers_sound [OF this] show ?thesis
    proof
      assume "a \<in> set st"
      then show ?thesis ..
    next
      assume "\<exists>d u. store = Some d \<and> u \<in> set (users d) \<and>
                (role u = ''dev'' \<or> role u = ''lead'') \<and>
                a = \<lparr>id_a = id_u u, name_a = name u, role_a = role u\<rparr>"
      then obtain d u where "store = Some d" and u: "u \<in> set (users d)"
        "role u = ''dev'' \<or> role u = ''lead''"
        "a = \<lparr>id_a = id_u u, name_a = name u, role_a = role u\<rparr>"
        by blast
      then have "Some d \<in> set (store # rest)"
        by simp
      then have "\<exists>d u. Some d \<in> set (store # rest) \<and> u \<in> set (users d) \<and>
                (role u = ''dev'' \<or> role u = ''lead'') \<and>
                a = \<lparr>id_a = id_u u, name_a = name u, role_a = role u\<rparr>"
        using u by blast
      then show ?thesis ..
    qed
  next
    assume "\<exists>d u. Some d \<in> set rest \<and> u \<in> set (users d) \<and>
                (role u = ''dev'' \<or> role u = ''lead'') \<and>
                a = \<lparr>id_a = id_u u, name_a = name u, role_a = role u\<rparr>"
    then obtain d u where "Some d \<in> set rest" and u: "u \<in> set (users d)"
      "role u = ''dev'' \<or> role u = ''lead''"
      "a = \<lparr>id_a = id_u u, name_a = name u, role_a = role u\<rparr>"
      by blast
    then have "Some d \<in> set (store # rest)"
      by simp
    then have "\<exists>d u. Some d \<in> set (store # rest) \<and> u \<in> set (users d) \<and>
              (role u = ''dev'' \<or> role u = ''lead'') \<and>
              a = \<lparr>id_a = id_u u, name_a = name u, role_a = role u\<rparr>"
      using u by blast
    then show ?thesis ..
  qed
qed

text \<open>
  The schema itself lets \<^verbatim>\<open>assigned_dev_id\<close> name any user, for instance an admin.
\<close>

lemma any_user_may_be_assigned:
  "insert_module sample_db (sample_module ''m2'' (Some ''p1'') (Some ''u-ada'')) =
     Inr (sample_db\<lparr>project_modules := project_modules sample_db @
            [sample_module ''m2'' (Some ''p1'') (Some ''u-ada'')]\<rparr>)"
  by (simp add: insert_module_def fk_def sample_db_def sample_module_def sample_project_def
      admin_ada_def sample_user_def)

text \<open>
  C10. Whatever the sequence of fetches (answered from any state of the store, or failed),
  every option of the assignee select other than "Unassigned" is a user of the component's
  state whose role, as fetched, is dev or lead, and who is a user of the store with that
  role, id and name at the time of a fetch. Users of any other role are not offered.
\<close>

theorem offered_assignees_are_dev_or_lead:
  "\<forall>opt \<in> set (assignee_options (fetches stores [])).
     opt = ([], ''Unassigned'') \<or>
     (\<exists>a \<in> set (fetches stores []).
        opt = (id_a a, name_a a) \<and> (role_a a = ''dev'' \<or> role_a a = ''lead'') \<and>
        (\<exists>d u. Some d \<in> set stores \<and> u \<in> set (users d) \<and> role u = role_a a \<and>
               id_u u = id_a a \<and> name u = name_a a))"
proof
  fix opt
  assume "opt \<in> set (assignee_options (fetches stores []))"
  then have "opt = ([], ''Unassigned'') \<or> (\<exists>a \<in> set (fetches stores []). opt = (id_a a, name_a a))"
    by (auto simp: assignee_options_def)
  then show "opt = ([], ''Unassigned'') \<or>
     (\<exists>a \<in> set (fetches stores []).
        opt = (id_a a, name_a a) \<and> (role_a a = ''dev'' \<or> role_a a = ''lead'') \<and>
        (\<exists>d u. Some d \<in> set stores \<and> u \<in> set (users d) \<and> role u = role_a a \<and>
               id_u u = id_a a \<and> name u = name_a a))"
  proof
    assume "opt = ([], ''Unassigned'')"
    then show ?thesis by simp
  next
    assume "\<exists>a \<in> set (fetches stores []). opt = (id_a a, name_a a)"
    then obtain a where a: "a \<in> set (fetches stores [])" and o: "opt = (id_a a, name_a a)"
      by blast
    from fetches_sound [OF a] obtain d u where
      "Some d \<in> set stores" "u \<in> set (users d)" "role u = ''dev'' \<or> role u = ''lead''"
      "a = \<lparr>id_a = id_u u, name_a = name u, role_a = role u\<rparr>"
      by auto
    then have "(role_a a = ''dev'' \<or> role_a a = ''lead'') \<and>
        (\<exists>d u. Some d \<in> set stores \<and> u \<in> set (users d) \<and> role u = role_a a \<and>
               id_u u = id_a a \<and> name u = name_a a)"
      by auto
    then show ?thesis using a o by blast
  qed
qed

lemma sample_fetch:
  "fetches [None, Some sample_db] [] =
     [\<lparr>id_a = ''u-dan'', name_a = ''dan'', role_a = ''dev''\<rparr>,
      \<lparr>id_a = ''u-eve'', name_a = ''eve'', role_a = ''dev''\<rparr>,
      \<lparr>id_a = ''u-lee'', name_a = ''lee'', role_a = ''lead''\<rparr>]"
  by (simp add: fetchUsers_def select_users_in_def sample_db_def admin_ada_def dev_dan_def
      dev_eve_def pm_pat_def lead_lee_def guest_gus_def sample_user_def)

theorem offered_assignees_are_dev_or_lead_witness:
  "(''u-lee'', ''lee'') \<in> set (assignee_options (fetches [None, Some sample_db] [])) \<and>
   (\<exists>a \<in> set (fetches [None, Some sample_db] []).
      (''u-lee'', ''lee'') = (id_a a, name_a a) \<and> (role_a a = ''dev'' \<or> role_a a = ''lead'') \<and>
      (\<exists>d u. Some d \<in> set [None, Some sample_db] \<and> u \<in> set (users d) \<and>
             role u = role_a a \<and> id_u u = id_a a \<and> name u = name_a a))"
proof -
  have mem: "(''u-lee'', ''lee'') \<in> set (assignee_options (fetches [None, Some sample_db] []))"
    unfolding assignee_options_def sample_fetch by simp
  have ne: "(''u-lee'', ''lee'') \<noteq> ([], ''Unassigned'')"
    by simp
  have "(''u-lee'', ''lee'') = ([], ''Unassigned'') \<or>
   (\<exists>a \<in> set (fetches [None, Some sample_db] []).
      (''u-lee'', ''lee'') = (id_a a, name_a a) \<and> (role_a a = ''dev'' \<or> role_a a = ''lead'') \<and>
      (\<exists>d u. Some d \<in> set [None, Some sample_db] \<and> u \<in> set (users d) \<and>
             role u = role_a a \<and> id_u u = id_a a \<and> name u = name_a a))"
    using offered_assignees_are_dev_or_lead [of "[None, Some sample_db]"] mem
    by (rule bspec)
  then show ?thesis
    using mem ne by (elim disjE) (simp, intro conjI)
qed

section \<open>Saving an edited module\<close>

lemma onChanges_editingId: "editingId (onChanges edits st) = editingId st"
  by (induction edits st rule: onChanges.induct) (simp_all add: onChange_def)

lemma onChanges_dom: "dom (editData st) \<subseteq> dom (editData (onChanges edits st))"
proof (induction edits st rule: onChanges.induct)
  case (1 st)
  then show ?case by simp
next
  case (2 field v rest st)
  have "dom (editData st) \<subseteq> dom (editData (onChange field v st))"
    by (auto simp: onChange_def)
  also have "\<dots> \<subseteq> dom (editData (onChanges rest (onChange field v st)))"
    by (rule "2.IH")
  finally show ?case by simp
qed

lemma onChanges_other:
  "field \<notin> fst ` set edits \<Longrightarrow> editData (onChanges edits st) field = editData st field"
  by (induction edits st rule: onChanges.induct) (auto simp: onChange_def)

text \<open>
  The client's half. Saving a module that was opened for editing sends one update of
  \<^verbatim>\<open>project_modules\<close>, filtered by the module's id. Its payload has every key of the
  module as it was captured when editing began, with the captured value for every key the
  actor did not touch (whether or not the actor may edit it), and a fresh
  \<^verbatim>\<open>updated_at\<close>.
\<close>

lemma handleSaveModule_payload:
  assumes "mdl ''id'' = Some (JString i)" and "i \<noteq> []"
  shows "\<exists>payload.
           handleSaveModule now (onChanges edits (handleEditModule mdl st)) =
             Some (Update ''project_modules'' payload i) \<and>
           dom mdl \<subseteq> dom payload \<and>
           payload ''updated_at'' = Some (JString now) \<and>
           (\<forall>field. field \<notin> fst ` set edits \<longrightarrow> field \<noteq> ''updated_at'' \<longrightarrow>
              payload field = mdl field)"
proof -
  let ?st = "onChanges edits (handleEditModule mdl st)"
  let ?payload = "(editData ?st)(''updated_at'' \<mapsto> JString now)"
  have id: "editingId ?st = Some i"
    using assms(1) by (simp add: onChanges_editingId handleEditModule_def string_of_def)
  have req: "handleSaveModule now ?st = Some (Update ''project_modules'' ?payload i)"
    using id assms(2) by (simp add: handleSaveModule_def falsy_def)
  have "dom mdl \<subseteq> dom (editData ?st)"
    using onChanges_dom [of "handleEditModule mdl st" edits]
    by (simp add: handleEditModule_def)
  then have dom: "dom mdl \<subseteq> dom ?payload"
    by auto
  have upd: "?payload ''updated_at'' = Some (JString now)"
    by simp
  have keep: "?payload field = mdl field"
    if "field \<notin> fst ` set edits" and "field \<noteq> ''updated_at''" for field
    using that onChanges_other [of field edits "handleEditModule mdl st"]
    by (simp add: handleEditModule_def)
  show ?thesis
    using req dom upd keep by (intro exI [where x = ?payload]) blast
qed

text \<open>
  The store's half. A module as \<^verbatim>\<open>fetchModules\<close> returns it has the joined key
  \<^verbatim>\<open>users\<close>, the payload carries it, and the store refuses the statement whatever the
  session, the rows and the edits: nothing is written.
\<close>

lemma users_is_no_column: "''users'' \<notin> set project_modules_columns"
  by (simp add: project_modules_columns_def)

lemma store_update_refuses:
  assumes "k \<in> dom payload" and "k \<notin> set project_modules_columns"
  shows "store_update valid d uid (Update table payload x) clock rows = Inl undefined_column"
proof -
  have "\<not> dom payload \<subseteq> set project_modules_columns"
    using assms by blast
  then show ?thesis
    by (simp add: store_update_def)
qed

lemma save_of_fetched_module_refused:
  assumes "mdl ''id'' = Some (JString i)" and "i \<noteq> []" and "''users'' \<in> dom mdl"
  shows "\<exists>payload.
           handleSaveModule now (onChanges edits (handleEditModule mdl st)) =
             Some (Update ''project_modules'' payload i) \<and>
           store_update valid d uid (Update ''project_modules'' payload i) clock rows =
             Inl undefined_column"
proof -
  from handleSaveModule_payload [of mdl i now edits st, OF assms(1,2)]
  obtain payload where
    req: "handleSaveModule now (onChanges edits (handleEditModule mdl st)) =
             Some (Update ''project_modules'' payload i)"
    and dom: "dom mdl \<subseteq> dom payload"
    by blast
  have "''users'' \<in> dom payload"
    using dom assms(3) by blast
  then have "store_update valid d uid (Update ''project_modules'' payload i) clock rows =
             Inl undefined_column"
    using users_is_no_column by (rule store_update_refuses)
  then show ?thesis
    using req by blast
qed

text \<open>
  With a payload of columns only, the store would do what the claim describes: it writes
  the payload over the row of a session it admits, and skips the row of one it does not.
\<close>

lemma store_update_overwrites:
  assumes "dom payload \<subseteq> set project_modules_columns"
    and "row ''id'' = Some (JString x)" and "row_admitted d uid row"
    and "row_admitted d uid ((row ++ payload)(''updated_at'' \<mapsto> JString clock))"
    and "valid ((row ++ payload)(''updated_at'' \<mapsto> JString clock))"
  shows "store_update valid d uid (Update table payload x) clock [row] =
           Inr [(row ++ payload)(''updated_at'' \<mapsto> JString clock)]"
  using assms by (simp add: store_update_def Let_def)

lemma store_update_skips:
  assumes "dom payload \<subseteq> set project_modules_columns"
    and "\<not> row_admitted d uid row"
  shows "store_update valid d uid (Update table payload x) clock [row] = Inr [row]"
  using assms by (simp add: store_update_def Let_def)

lemma sample_module_object_values:
  "sample_module_object ''id'' = Some (JString ''m1'')"
  "sample_module_object ''eta'' = Some JNull"
  "sample_module_object ''users'' = Some (JObject [(''name'', JString ''eve'')])"
  by (simp_all add: sample_module_object_def)

text \<open>
  C5. Eve opens the fetched module \<open>m1\<close>, sets its status and saves. The one request
  sent is a full-record update: its payload holds the captured value of a key she did not
  touch (\<^verbatim>\<open>eta\<close>) and the joined key \<^verbatim>\<open>users\<close>. Because of that key the store
  refuses the statement, so no stored field is overwritten, where the claim says the
  fields changed by another user in the meantime are.
\<close>

theorem fetched_module_save_refused:
  "sample_module_object ''users'' = Some (JObject [(''name'', JString ''eve'')]) \<and>
   ''users'' \<notin> set project_modules_columns \<and>
   (\<exists>payload.
      handleSaveModule ''2025-08-06T09:00:00Z''
          (onChanges [(''status'', ''in_progress'')]
             (handleEditModule sample_module_object initial_module_table_state)) =
        Some (Update ''project_modules'' payload ''m1'') \<and>
      payload ''eta'' = Some JNull \<and>
      payload ''users'' = Some (JObject [(''name'', JString ''eve'')]) \<and>
      store_update valid sample_db ''auth-u-eve'' (Update ''project_modules'' payload ''m1'')
          ''2025-08-06T09:00:01Z''
          [sample_module_object(''eta'' \<mapsto> JString ''2025-09-01T00:00:00Z'')] =
        Inl undefined_column)"
proof -
  let ?st = "onChanges [(''status'', ''in_progress'')]
             (handleEditModule sample_module_object initial_module_table_state)"
  let ?payload = "(editData ?st)(''updated_at'' \<mapsto> JString ''2025-08-06T09:00:00Z'')"
  have req: "handleSaveModule ''2025-08-06T09:00:00Z'' ?st =
      Some (Update ''project_modules'' ?payload ''m1'')"
    by (simp add: handleSaveModule_def falsy_def onChange_def handleEditModule_def
        string_of_def sample_module_object_values)
  have eta: "?payload ''eta'' = Some JNull"
    and users: "?payload ''users'' = Some (JObject [(''name'', JString ''eve'')])"
    by (simp_all add: onChange_def handleEditModule_def sample_module_object_values)
  have "''users'' \<in> dom ?payload"
    using users by blast
  then have "store_update valid sample_db ''auth-u-eve''
      (Update ''project_modules'' ?payload ''m1'') ''2025-08-06T09:00:01Z''
      [sample_module_object(''eta'' \<mapsto> JString ''2025-09-01T00:00:00Z'')] = Inl undefined_column"
    using users_is_no_column by (rule store_update_refuses)
  then show ?thesis
    using req eta users users_is_no_column sample_module_object_values(3)
    by (intro conjI exI [where x = ?payload]) simp_all
qed

end
